theory Spec2Isabelle
  imports Main "HOL-Library.Sublist" "HOL-Library.AList"
begin

section \<open>Python strings\<close>

text \<open>
  A Python \<open>str\<close> is a sequence of Unicode code points. A code point is modelled as a
  natural number and a string as a list of them, so that \<open>length\<close> counts what Python's
  \<open>len\<close> counts and \<open>strip\<close> works on code points. \<open>ustr\<close> turns an ASCII literal
  into such a string; the few non-ASCII characters of the notebook are written as numbers
  (the degree sign is 176).
\<close>

type_synonym pystr = "nat list"

definition ustr :: "string \<Rightarrow> pystr" where
  "ustr cs = map of_char cs"

text \<open>
  The exceptions the modelled code can raise. \<open>Exception\<close> stands for any other
  exception a registered handler raises, with its message.
\<close>

datatype pyexn = AttributeError | IndexError | TypeError | ValueError | Exception pystr

text \<open>
  \<open>str.strip()\<close> without argument removes leading and trailing whitespace. The
  whitespace code points are those for which CPython's \<open>str.isspace\<close> holds.
\<close>

definition py_isspace :: "nat \<Rightarrow> bool" where
  "py_isspace c \<longleftrightarrow>
     (9 \<le> c \<and> c \<le> 13) \<or> (28 \<le> c \<and> c \<le> 32) \<or> c = 133 \<or> c = 160 \<or> c = 5760 \<or>
     (8192 \<le> c \<and> c \<le> 8202) \<or> c = 8232 \<or> c = 8233 \<or> c = 8239 \<or> c = 8287 \<or> c = 12288"

definition strip_where :: "(nat \<Rightarrow> bool) \<Rightarrow> pystr \<Rightarrow> pystr" where
  "strip_where P s = rev (dropWhile P (rev (dropWhile P s)))"

definition py_strip :: "pystr \<Rightarrow> pystr" where
  "py_strip s = strip_where py_isspace s"

text \<open>\<open>s.strip(chars)\<close> removes leading and trailing characters that occur in \<open>chars\<close>.\<close>

definition py_strip_chars :: "pystr \<Rightarrow> pystr \<Rightarrow> pystr" where
  "py_strip_chars chars s = strip_where (\<lambda>c. c \<in> set chars) s"

section \<open>The simulated weather tool\<close>

text \<open>
  \<^verbatim>\<open>
  def get_weather(location: str) -> str:
      simulated_weather = {
          "New York": "Partly cloudy, 15 C, 60% humidity",
          "Tokyo": "Sunny, 28 C, 40% humidity",
          "Berlin": "Rainy, 12 C, 85% humidity"
      }
      return simulated_weather.get(location, "Weather data not available.")
  \<close>
  (with the degree sign, code point 176, before each \<open>C\<close>). The dict literal is an
  association list; its keys are distinct, so \<open>map_of\<close> is the dict's lookup.
\<close>

definition weather_new_york :: pystr where
  "weather_new_york = ustr ''Partly cloudy, 15'' @ [176] @ ustr ''C, 60% humidity''"

definition weather_tokyo :: pystr where
  "weather_tokyo = ustr ''Sunny, 28'' @ [176] @ ustr ''C, 40% humidity''"

definition weather_berlin :: pystr where
  "weather_berlin = ustr ''Rainy, 12'' @ [176] @ ustr ''C, 85% humidity''"

definition weather_not_available :: pystr where
  "weather_not_available = ustr ''Weather data not available.''"

definition simulated_weather :: "(pystr \<times> pystr) list" where
  "simulated_weather =
     [(ustr ''New York'', weather_new_york),
      (ustr ''Tokyo'', weather_tokyo),
      (ustr ''Berlin'', weather_berlin)]"

definition get_weather :: "pystr \<Rightarrow> pystr" where
  "get_weather location =
     (case map_of simulated_weather location of
        Some description \<Rightarrow> description
      | None \<Rightarrow> weather_not_available)"

section \<open>String splitting and the location heuristic\<close>

text \<open>
  \<open>find_sep sep s\<close> looks for the first (leftmost) occurrence of \<open>sep\<close> in \<open>s\<close>
  and returns the text before it and the text after it.
\<close>

fun find_sep :: "pystr \<Rightarrow> pystr \<Rightarrow> (pystr \<times> pystr) option" where
  "find_sep sep [] = (if sep = [] then Some ([], []) else None)"
| "find_sep sep (c # cs) =
     (if prefix sep (c # cs) then Some ([], drop (length sep) (c # cs))
      else (case find_sep sep cs of
              None \<Rightarrow> None
            | Some (before, after) \<Rightarrow> Some (c # before, after)))"

text \<open>
  \<open>s.split(sep)\<close>: an empty separator raises \<open>ValueError\<close>; otherwise the string is
  cut at the occurrences of \<open>sep\<close> found by scanning from the left, the search resuming
  after each occurrence found, and the rest of the string is the last segment.
\<close>

function py_split :: "pystr \<Rightarrow> pystr \<Rightarrow> pyexn + pystr list" where
  "py_split sep s =
     (if sep = [] then Inl ValueError
      else (case find_sep sep s of
              None \<Rightarrow> Inr [s]
            | Some (before, after) \<Rightarrow>
                (case py_split sep after of
                   Inl e \<Rightarrow> Inl e
                 | Inr segments \<Rightarrow> Inr (before # segments))))"
  by pat_completeness auto
termination
proof (relation "measure (\<lambda>(sep, s). length s)")
  show "wf (measure (\<lambda>(sep :: pystr, s :: pystr). length s))"
    by simp
next
  fix sep s :: pystr and found :: "pystr \<times> pystr" and before after :: pystr
  assume sep: "sep \<noteq> []" and found: "find_sep sep s = Some found"
    and parts: "(before, after) = found"
  have "find_sep sep t = Some (b, a) \<Longrightarrow> length a < length t" for t b a
  proof (induction t arbitrary: b)
    case Nil
    with sep show ?case by simp
  next
    case (Cons c cs)
    show ?case
    proof (cases "prefix sep (c # cs)")
      case True
      with Cons.prems sep show ?thesis by auto
    next
      case False
      with Cons.prems obtain b' where "find_sep sep cs = Some (b', a)"
        by (auto split: option.splits)
      from Cons.IH [OF this] show ?thesis by simp
    qed
  qed
  with found parts have "length after < length s"
    by auto
  then show "((sep, after), (sep, s)) \<in> measure (\<lambda>(sep, s). length s)"
    by simp
qed

declare py_split.simps [simp del]

text \<open>\<open>xs[-1]\<close>: the last element, \<open>IndexError\<close> on an empty list.\<close>

definition py_last :: "'a list \<Rightarrow> pyexn + 'a" where
  "py_last xs = (if xs = [] then Inl IndexError else Inr (last xs))"

text \<open>
  The location heuristic of \<open>Agent.run\<close>:
  \<^verbatim>\<open>location = user_input.strip().split(" in ")[-1].strip(" ?.")\<close>
\<close>

definition sep_in :: pystr where
  "sep_in = ustr '' in ''"

definition extract_location :: "pystr \<Rightarrow> pyexn + pystr" where
  "extract_location user_input =
     (case py_split sep_in (py_strip user_input) of
        Inl e \<Rightarrow> Inl e
      | Inr segments \<Rightarrow>
          (case py_last segments of
             Inl e \<Rightarrow> Inl e
           | Inr segment \<Rightarrow> Inr (py_strip_chars (ustr '' ?.'') segment)))"

section \<open>Tools and the agent\<close>

text \<open>
  A Python callable as \<open>register_tool\<close> sees it: its \<open>__name__\<close> (absent for callables
  such as \<open>functools.partial\<close> objects, where reading it raises \<open>AttributeError\<close>), its
  \<open>__doc__\<close> (\<open>None\<close> when there is no docstring) and what a call with keyword arguments
  does: return a value or raise. Keyword arguments are an association list from
  parameter name to value. Handlers are modelled as pure: a handler that prints or that
  mutates the agent it is registered with is outside this model.
\<close>

type_synonym 'v kwargs = "(pystr \<times> 'v) list"

record ('v, 'r) callable =
  fn_name :: "pystr option"
  fn_doc :: "pystr option"
  fn_call :: "'v kwargs \<Rightarrow> pyexn + 'r"

text \<open>
  \<^verbatim>\<open>
  class Tool:
      def __init__(self, name, description, func):
          self.name = name
          self.description = description
          self.func = func
      def run(self, **kwargs):
          return self.func(**kwargs)
  \<close>
\<close>

record ('v, 'r) Tool =
  name :: pystr
  description :: pystr
  func :: "('v, 'r) callable"

definition Tool_init :: "pystr \<Rightarrow> pystr \<Rightarrow> ('v, 'r) callable \<Rightarrow> ('v, 'r) Tool" where
  "Tool_init n d f = \<lparr>name = n, description = d, func = f\<rparr>"

text \<open>
  The first parameter of \<open>run\<close> is itself named \<open>self\<close> and can be passed by keyword,
  so a keyword argument of that name cannot reach \<open>**kwargs\<close>: Python raises
  \<open>TypeError\<close> (multiple values for argument \<open>self\<close>) before the body runs.
\<close>

definition Tool_run :: "('v, 'r) Tool \<Rightarrow> 'v kwargs \<Rightarrow> pyexn + 'r" where
  "Tool_run self kwargs =
     (if ustr ''self'' \<in> set (map fst kwargs) then Inl TypeError
      else fn_call (func self) kwargs)"

text \<open>
  The agent holds the dict \<open>self.tools\<close>. It is an association list updated with
  \<open>AList.update\<close>, which replaces the value of a key that is present and appends a new
  key at the end, as a Python dict does; \<open>map_of\<close> is \<open>dict.get\<close>.
\<close>

record ('v, 'r) Agent =
  tools :: "(pystr \<times> ('v, 'r) Tool) list"

definition Agent_init :: "('v, 'r) Agent" where
  "Agent_init = \<lparr>tools = []\<rparr>"

text \<open>\<open>func.__doc__ or ""\<close>: the docstring, or the empty string when it is \<open>None\<close> or empty.\<close>

definition doc_or_empty :: "pystr option \<Rightarrow> pystr" where
  "doc_or_empty doc = (case doc of None \<Rightarrow> [] | Some d \<Rightarrow> (if d = [] then [] else d))"

text \<open>
  \<^verbatim>\<open>
  def register_tool(self, func):
      tool = Tool(name=func.__name__, description=func.__doc__ or "", func=func)
      self.tools[tool.name] = tool
  \<close>
  The result is the agent after the call, or the exception raised (the agent is then
  unchanged).
\<close>

definition register_tool :: "('v, 'r) callable \<Rightarrow> ('v, 'r) Agent \<Rightarrow> pyexn + ('v, 'r) Agent" where
  "register_tool f self =
     (case fn_name f of
        None \<Rightarrow> Inl AttributeError
      | Some n \<Rightarrow>
          (let tool = Tool_init n (doc_or_empty (fn_doc f)) f
           in Inr (self\<lparr>tools := AList.update (name tool) tool (tools self)\<rparr>)))"

text \<open>The action record built by \<open>Agent.run\<close>: a dict with the keys \<open>action\<close> and \<open>action_input\<close>.\<close>

record action_record =
  action :: pystr
  action_input :: "pystr kwargs"

text \<open>
  What \<open>Agent.run\<close> prints, one value per \<open>print\<close> call, each carrying the values
  interpolated into its f-string:
  \<^item> \<open>Thought_line\<close>: the fixed thought message;
  \<^item> \<open>Action_line a inp\<close>: the action line, with \<open>action['action']\<close> and
    \<open>action['action_input']\<close>;
  \<^item> \<open>Not_found_line\<close>: the notice \<open>Tool not found.\<close>;
  \<^item> \<open>Observation_line result\<close>: the observation, with the tool's result;
  \<^item> \<open>Updated_thought_line\<close>: the fixed updated-thought message;
  \<^item> \<open>Final_response_line location result\<close>: the final response.
\<close>

datatype 'r line =
    Thought_line
  | Action_line pystr "pystr kwargs"
  | Not_found_line
  | Observation_line 'r
  | Updated_thought_line
  | Final_response_line pystr 'r

text \<open>
  The text of the final response when the tool's result is a string:
  \<^verbatim>\<open>f"\n<emoji> Final Response: The current weather in {location} is: {result}"\<close>
  (10 is the newline, 128172 the speech-balloon emoji of the source).
\<close>

definition final_response_text :: "pystr \<Rightarrow> pystr \<Rightarrow> pystr" where
  "final_response_text location result =
     [10, 128172] @ ustr '' Final Response: The current weather in '' @ location
       @ ustr '' is: '' @ result"

text \<open>
  The outcome of one call of \<open>Agent.run\<close>: the agent afterwards, the lines printed in
  order, and the exception the call ended with, if any (\<open>None\<close>: the call returned).
\<close>

record ('v, 'r) outcome =
  agent_after :: "('v, 'r) Agent"
  printed :: "'r line list"
  raised :: "pyexn option"

text \<open>
  \<^verbatim>\<open>
  def run(self, user_input):
      print("... Thought: ...")
      location = user_input.strip().split(" in ")[-1].strip(" ?.")
      action = {"action": "get_weather", "action_input": {"location": location}}
      print(f"... Action: Executing tool '{action['action']}' with input: {action['action_input']}")
      tool = self.tools.get(action["action"])
      if not tool:
          print("... Tool not found.")
          return
      result = tool.run(**action["action_input"])
      print(f"... Observation: Tool returned -> '{result}'")
      print("... Updated Thought: ...")
      print(f"... Final Response: The current weather in {location} is: {result}")
  \<close>
  A \<open>Tool\<close> object is always truthy, so \<open>not tool\<close> holds exactly when the lookup found
  nothing. Printing is taken to succeed: the output stream accepts every line.
\<close>

definition Agent_run :: "(pystr, 'r) Agent \<Rightarrow> pystr \<Rightarrow> (pystr, 'r) outcome" where
  "Agent_run self user_input =
     (case extract_location user_input of
        Inl e \<Rightarrow> \<lparr>agent_after = self, printed = [Thought_line], raised = Some e\<rparr>
      | Inr location \<Rightarrow>
          (let act = \<lparr>action = ustr ''get_weather'',
                      action_input = [(ustr ''location'', location)]\<rparr>;
               shown = [Thought_line, Action_line (action act) (action_input act)]
           in (case map_of (tools self) (action act) of
                 None \<Rightarrow>
                   \<lparr>agent_after = self, printed = shown @ [Not_found_line], raised = None\<rparr>
               | Some tool \<Rightarrow>
                   (case Tool_run tool (action_input act) of
                      Inl e \<Rightarrow> \<lparr>agent_after = self, printed = shown, raised = Some e\<rparr>
                    | Inr result \<Rightarrow>
                        \<lparr>agent_after = self,
                         printed = shown @ [Observation_line result, Updated_thought_line,
                                            Final_response_line location result],
                         raised = None\<rparr>))))"

text \<open>
  \<open>get_weather\<close> as a callable: its name, its docstring, and the binding of keyword
  arguments to its single parameter \<open>location\<close> (any other set of keywords is a
  \<open>TypeError\<close>).
\<close>

definition get_weather_fn :: "(pystr, pystr) callable" where
  "get_weather_fn =
     \<lparr>fn_name = Some (ustr ''get_weather''),
      fn_doc = Some (ustr ''Fetches the weather for a given location.''),
      fn_call = (\<lambda>kwargs. case kwargs of
                   [(k, v)] \<Rightarrow> if k = ustr ''location'' then Inr (get_weather v) else Inl TypeError
                 | _ \<Rightarrow> Inl TypeError)\<rparr>"

text \<open>
  The registry invariant: the keys are pairwise distinct, and each key is the name of the
  tool stored under it, which is the \<open>__name__\<close> of the tool's handler.
\<close>

definition registry_inv :: "('v, 'r) Agent \<Rightarrow> bool" where
  "registry_inv self \<longleftrightarrow>
     distinct (map fst (tools self)) \<and>
     (\<forall>(k, t) \<in> set (tools self). name t = k \<and> fn_name (func t) = Some k)"

section \<open>Facts about splitting and stripping\<close>

lemma py_split_nonempty:
  "sep \<noteq> [] \<Longrightarrow> \<exists>segs. py_split sep s = Inr segs \<and> segs \<noteq> []"
proof (induction sep s rule: py_split.induct)
  case (1 sep s)
  show ?case
  proof (cases "find_sep sep s")
    case None
    with "1.prems" show ?thesis by (simp add: py_split.simps)
  next
    case (Some found)
    obtain b a where found: "found = (b, a)" by (cases found)
    from "1.IH" [OF "1.prems" Some found [symmetric] "1.prems"]
    obtain segs where "py_split sep a = Inr segs" by blast
    with Some found "1.prems" show ?thesis
      by (subst py_split.simps) simp
  qed
qed

lemma sep_in_nonempty: "sep_in \<noteq> []"
  by (simp add: sep_in_def ustr_def)

lemma extract_location_total: "\<exists>loc. extract_location u = Inr loc"
proof -
  from py_split_nonempty [OF sep_in_nonempty]
  obtain segs where "py_split sep_in (py_strip u) = Inr segs" "segs \<noteq> []" by blast
  then show ?thesis by (simp add: extract_location_def py_last_def)
qed

lemma find_sep_None: "sep \<noteq> [] \<Longrightarrow> \<not> sublist sep s \<Longrightarrow> find_sep sep s = None"
  by (induction s) (auto simp: sublist_Cons_right)

lemma find_sep_Some: "find_sep sep s = Some (b, a) \<Longrightarrow> s = b @ sep @ a"
proof (induction s arbitrary: b)
  case Nil
  then show ?case by (simp split: if_splits)
next
  case (Cons c cs)
  show ?case
  proof (cases "prefix sep (c # cs)")
    case True
    with Cons.prems show ?thesis by (auto simp: prefix_def)
  next
    case False
    with Cons.prems obtain b' where "find_sep sep cs = Some (b', a)" "b = c # b'"
      by (auto split: option.splits)
    with Cons.IH show ?thesis by simp
  qed
qed

lemma find_sep_first:
  "sep \<noteq> [] \<Longrightarrow> \<exists>b a. find_sep sep (p @ sep @ r) = Some (b, a) \<and> length b \<le> length p"
proof (induction p)
  case Nil
  then show ?case by (cases sep) auto
next
  case (Cons c p)
  then show ?case by auto
qed

lemma sublist_strip_where: "sublist (strip_where P s) s"
proof -
  have "suffix (dropWhile P s) s" by (rule suffix_dropWhile)
  moreover have "prefix (rev (dropWhile P (rev (dropWhile P s)))) (dropWhile P s)"
    by (metis prefix_def rev_append rev_rev_ident takeWhile_dropWhile_id)
  ultimately show ?thesis
    unfolding strip_where_def by (meson prefix_imp_sublist suffix_imp_sublist sublist_order.order_trans)
qed

lemma sep_in_overlap:
  assumes "sep_in @ a = us @ sep_in @ seg"
  shows "us = [] \<or> us = ustr '' in'' \<or> (\<exists>us'. us = sep_in @ us')"
proof -
  have "length us = 0 \<or> length us = 1 \<or> length us = 2 \<or> length us = 3 \<or> 4 \<le> length us"
    by arith
  then show ?thesis
  proof (elim disjE)
    assume "4 \<le> length us"
    then have "length sep_in \<le> length us" by (simp add: sep_in_def ustr_def)
    with assms have "prefix sep_in us"
      by (metis prefix_def prefix_length_prefix)
    then show ?thesis by (auto simp: prefix_def)
  next
    assume "length us = 1"
    then obtain x where "us = [x]" by (cases us) auto
    with assms show ?thesis by (simp add: sep_in_def ustr_def)
  next
    assume "length us = 2"
    then obtain x y where "us = [x, y]" by (cases us; cases "tl us") auto
    with assms show ?thesis by (simp add: sep_in_def ustr_def)
  next
    assume "length us = 3"
    then obtain x y z where "us = [x, y, z]"
      by (cases us; cases "tl us"; cases "tl (tl us)") auto
    with assms show ?thesis by (simp add: sep_in_def ustr_def)
  qed simp
qed

lemma py_split_last_sep_in:
  assumes "\<not> suffix (ustr '' in'') pre"
  shows "\<exists>segs segs'. py_split sep_in (pre @ sep_in @ seg) = Inr segs \<and>
           py_split sep_in seg = Inr segs' \<and> last segs = last segs'"
  using assms
proof (induction "length pre" arbitrary: pre rule: less_induct)
  case less
  obtain b a where found: "find_sep sep_in (pre @ sep_in @ seg) = Some (b, a)"
      and len: "length b \<le> length pre"
    using find_sep_first [OF sep_in_nonempty] by blast
  from find_sep_Some [OF found] have eq: "pre @ sep_in @ seg = b @ sep_in @ a" .
  with len obtain us where pre: "pre = b @ us" and rest: "sep_in @ a = us @ sep_in @ seg"
    by (metis append_eq_append_conv_if append_take_drop_id append_assoc append_eq_conv_conj)
  from sep_in_overlap [OF rest] less.prems pre
  consider "us = []" | us' where "us = sep_in @ us'"
    by (auto simp: suffix_def)
  then show ?case
  proof cases
    case 1
    with rest have a: "a = seg" by simp
    obtain segs' where segs': "py_split sep_in seg = Inr segs'" "segs' \<noteq> []"
      using py_split_nonempty [OF sep_in_nonempty] by blast
    with found a sep_in_nonempty show ?thesis
      by (subst py_split.simps) simp
  next
    case 2
    with rest have a: "a = us' @ sep_in @ seg" by simp
    from 2 pre have "length us' < length pre"
      by (simp add: sep_in_def ustr_def)
    moreover from 2 pre less.prems have "\<not> suffix (ustr '' in'') us'"
      by (auto simp: suffix_def)
    ultimately obtain segs segs' where
      "py_split sep_in (us' @ sep_in @ seg) = Inr segs"
      "py_split sep_in seg = Inr segs'" "last segs = last segs'"
      using less.hyps by blast
    moreover from this(1) have "segs \<noteq> []"
      using py_split_nonempty [OF sep_in_nonempty, of "us' @ sep_in @ seg"] by auto
    ultimately show ?thesis
      using found a sep_in_nonempty by (subst py_split.simps) simp
  qed
qed

lemma strip_where_core:
  assumes "w \<noteq> []" "\<not> P (hd w)" "\<not> P (last w)" "\<forall>c \<in> set tail. P c"
  shows "strip_where P (w @ tail) = w"
proof -
  from assms(1,2) have "dropWhile P (w @ tail) = w @ tail"
    by (cases w) auto
  moreover from assms(4) have "dropWhile P (rev tail @ rev w) = dropWhile P (rev w)"
    by (simp add: dropWhile_append)
  moreover from assms(1,3) have "dropWhile P (rev w) = rev w"
    by (cases "rev w") (auto simp: last_rev [symmetric] hd_rev)
  ultimately show ?thesis
    by (simp add: strip_where_def)
qed

lemma strip_where_both:
  assumes "\<forall>c \<in> set lead. P c" "\<forall>c \<in> set trail. P c"
    and "mid = [] \<or> (\<not> P (hd mid) \<and> \<not> P (last mid))"
  shows "strip_where P (lead @ mid @ trail) = mid"
proof (cases "mid = []")
  case True
  from assms(1,2) have "\<forall>c \<in> set (lead @ mid @ trail). P c"
    by (auto simp: True)
  then have d: "dropWhile P (lead @ mid @ trail) = []"
    by (simp only: dropWhile_eq_Nil_conv)
  show ?thesis
    unfolding strip_where_def d using True by simp
next
  case False
  with assms(3) have "strip_where P (mid @ trail) = mid"
    using assms(2) by (intro strip_where_core) auto
  moreover from assms(1) have "dropWhile P (lead @ mid @ trail) = dropWhile P (mid @ trail)"
    by (simp add: dropWhile_append)
  ultimately show ?thesis
    by (simp add: strip_where_def)
qed

lemma py_split_no_sep:
  assumes "sep \<noteq> []" "\<not> sublist sep s"
  shows "py_split sep s = Inr [s]"
  using assms by (subst py_split.simps) (simp add: find_sep_None)

lemma extract_location_no_in:
  assumes "\<not> sublist sep_in (py_strip u)"
  shows "extract_location u = Inr (py_strip_chars (ustr '' ?.'') (py_strip u))"
  using assms
  by (simp add: extract_location_def py_split_no_sep [OF sep_in_nonempty] py_last_def)

lemma extract_location_last_in:
  assumes "py_strip u = pre @ sep_in @ seg" "\<not> suffix (ustr '' in'') pre"
    and "\<not> sublist sep_in seg"
  shows "extract_location u = Inr (py_strip_chars (ustr '' ?.'') seg)"
proof -
  from py_split_last_sep_in [OF assms(2), of seg] py_split_no_sep [OF sep_in_nonempty assms(3)]
  obtain segs where "py_split sep_in (pre @ sep_in @ seg) = Inr segs" "last segs = seg"
    by auto
  moreover from this(1) have "segs \<noteq> []"
    using py_split_nonempty [OF sep_in_nonempty, of "pre @ sep_in @ seg"] by auto
  ultimately show ?thesis
    by (simp add: extract_location_def assms(1) py_last_def)
qed

section \<open>Facts about the registry and the run\<close>

lemma set_update_cases:
  "p \<in> set (AList.update k v al) \<Longrightarrow> p = (k, v) \<or> p \<in> set al"
  by (induction al) (auto split: if_splits)

lemma register_tool_named:
  assumes "fn_name f = Some n"
  shows "register_tool f self =
           Inr (self\<lparr>tools := AList.update n (Tool_init n (doc_or_empty (fn_doc f)) f) (tools self)\<rparr>)"
  using assms by (simp add: register_tool_def Tool_init_def)

lemma register_tool_inv:
  assumes "registry_inv self" "register_tool f self = Inr self'"
  shows "registry_inv self'"
proof -
  from assms(2) obtain n where n: "fn_name f = Some n"
    by (auto simp: register_tool_def split: option.splits)
  from assms(2) have tls: "tools self' =
      AList.update n (Tool_init n (doc_or_empty (fn_doc f)) f) (tools self)"
    by (auto simp: register_tool_named [OF n])
  from assms(1) have "distinct (map fst (tools self'))"
    by (simp add: tls registry_inv_def distinct_update)
  moreover have "name t = k \<and> fn_name (func t) = Some k" if "(k, t) \<in> set (tools self')" for k t
    using set_update_cases [OF that [unfolded tls]] assms(1) n
    by (auto simp: registry_inv_def Tool_init_def)
  ultimately show ?thesis
    by (auto simp: registry_inv_def)
qed

lemma Agent_run_agent_after: "agent_after (Agent_run self u) = self"
  by (simp add: Agent_run_def Let_def split: sum.splits option.splits)

lemma Tool_run_forwards:
  "ustr ''self'' \<notin> set (map fst kwargs) \<Longrightarrow>
     Tool_run (Tool_init n d f) kwargs = fn_call f kwargs"
  by (simp add: Tool_run_def Tool_init_def)

lemma Agent_run_shown:
  assumes "extract_location u = Inr loc"
  shows "\<exists>rest. printed (Agent_run self u) =
           Thought_line # Action_line (ustr ''get_weather'') [(ustr ''location'', loc)] # rest"
  using assms
  by (simp add: Agent_run_def Let_def split: option.splits sum.splits)

lemma final_response_contains_result:
  "sublist result (final_response_text location result)"
  unfolding final_response_text_def
  by (intro suffix_imp_sublist) (simp add: suffix_def)

lemma run_registered_get_weather:
  assumes "map_of (tools self) (ustr ''get_weather'') =
             Some (Tool_init (ustr ''get_weather'') d get_weather_fn)"
    and "extract_location user_input = Inr location"
  shows "Agent_run self user_input =
           \<lparr>agent_after = self,
            printed = [Thought_line,
                       Action_line (ustr ''get_weather'') [(ustr ''location'', location)],
                       Observation_line (get_weather location),
                       Updated_thought_line,
                       Final_response_line location (get_weather location)],
            raised = None\<rparr>"
proof -
  have "Tool_run (Tool_init (ustr ''get_weather'') d get_weather_fn)
          [(ustr ''location'', location)] = Inr (get_weather location)"
    by (simp add: Tool_run_def Tool_init_def get_weather_fn_def ustr_def)
  with assms show ?thesis
    by (simp add: Agent_run_def Let_def)
qed

lemma register_get_weather_lookup:
  assumes "register_tool get_weather_fn before = Inr self"
  shows "map_of (tools self) (ustr ''get_weather'') =
           Some (Tool_init (ustr ''get_weather'')
                   (ustr ''Fetches the weather for a given location.'') get_weather_fn)"
proof -
  have n: "fn_name get_weather_fn = Some (ustr ''get_weather'')"
    by (simp add: get_weather_fn_def)
  have "doc_or_empty (fn_doc get_weather_fn) = ustr ''Fetches the weather for a given location.''"
    by (simp add: get_weather_fn_def doc_or_empty_def ustr_def)
  with assms show ?thesis
    by (auto simp: register_tool_named [OF n] update_conv')
qed

section \<open>The weather tool\<close>

text \<open>
  Claim C2. For every key of the simulated weather table, \<open>get_weather\<close> called with that
  key returns the description stored with it. The keys are exactly \<open>New York\<close>,
  \<open>Tokyo\<close> and \<open>Berlin\<close>, and the three results are the strings of the source.
\<close>

theorem get_weather_known_key:
  "(\<forall>(k, v) \<in> set simulated_weather. get_weather k = v) \<and>
   map fst simulated_weather = [ustr ''New York'', ustr ''Tokyo'', ustr ''Berlin''] \<and>
   get_weather (ustr ''New York'') = ustr ''Partly cloudy, 15'' @ [176] @ ustr ''C, 60% humidity'' \<and>
   get_weather (ustr ''Tokyo'') = ustr ''Sunny, 28'' @ [176] @ ustr ''C, 40% humidity'' \<and>
   get_weather (ustr ''Berlin'') = ustr ''Rainy, 12'' @ [176] @ ustr ''C, 85% humidity''"
  by (simp add: get_weather_def simulated_weather_def weather_new_york_def weather_tokyo_def
      weather_berlin_def ustr_def)

theorem get_weather_known_key_witness:
  "(ustr ''Tokyo'', ustr ''Sunny, 28'' @ [176] @ ustr ''C, 40% humidity'') \<in> set simulated_weather \<and>
   get_weather (ustr ''Tokyo'') = ustr ''Sunny, 28'' @ [176] @ ustr ''C, 40% humidity''"
proof
  show "(ustr ''Tokyo'', ustr ''Sunny, 28'' @ [176] @ ustr ''C, 40% humidity'') \<in> set simulated_weather"
    by (simp add: simulated_weather_def weather_tokyo_def)
  with get_weather_known_key
  show "get_weather (ustr ''Tokyo'') = ustr ''Sunny, 28'' @ [176] @ ustr ''C, 40% humidity''"
    by blast
qed

text \<open>
  Claim C3. For every location that is not a key of the simulated weather table,
  \<open>get_weather\<close> returns the fallback string \<open>Weather data not available.\<close>
\<close>

theorem get_weather_unknown_key:
  "location \<notin> set (map fst simulated_weather) \<Longrightarrow>
     get_weather location = ustr ''Weather data not available.''"
  by (simp add: get_weather_def weather_not_available_def map_of_eq_None_iff [THEN iffD2])

theorem get_weather_unknown_key_witness:
  "ustr ''Paris'' \<notin> set (map fst simulated_weather) \<and>
   get_weather (ustr ''Paris'') = ustr ''Weather data not available.''"
proof -
  have "ustr ''Paris'' \<notin> set (map fst simulated_weather)"
    by (simp add: simulated_weather_def ustr_def)
  with get_weather_unknown_key [of "ustr ''Paris''"] show ?thesis
    by simp
qed

section \<open>The tool wrapper\<close>

text \<open>
  Claim C7 says that \<open>Tool(name, description, f).run(**kwargs)\<close> equals
  \<open>f(**kwargs)\<close> for every callable and every keyword mapping. The wrapper does forward
  every mapping without the key \<open>self\<close> (lemma \<open>Tool_run_forwards\<close>), results and
  exceptions alike. With the key \<open>self\<close> it does not: a callable that accepts any
  keywords and returns how many it got returns 1 when called directly, and the wrapped call
  raises \<open>TypeError\<close> without calling it.
\<close>

theorem tool_run_self_keyword:
  "fn_call \<lparr>fn_name = Some (ustr ''count''), fn_doc = None,
            fn_call = (\<lambda>kwargs :: nat kwargs. Inr (length kwargs))\<rparr>
     [(ustr ''self'', 1)] = Inr 1 \<and>
   Tool_run
     (Tool_init (ustr ''count'') []
        \<lparr>fn_name = Some (ustr ''count''), fn_doc = None,
         fn_call = (\<lambda>kwargs :: nat kwargs. Inr (length kwargs))\<rparr>)
     [(ustr ''self'', 1)] = (Inl TypeError :: pyexn + nat)"
  by (simp add: Tool_run_def)

section \<open>The registry\<close>

text \<open>
  Claim C6. Registering two callables that carry the same name \<open>n\<close> raises no error and
  overwrites silently: both registrations succeed, the lookup of \<open>n\<close> afterwards gives
  the tool built from the second callable, and the registry is the one that registering
  the second callable alone would have given.
\<close>

theorem register_same_name_overwrites:
  assumes "fn_name f = Some n" and "fn_name g = Some n"
  shows "\<exists>self1 self2.
           register_tool f self = Inr self1 \<and> register_tool g self1 = Inr self2 \<and>
           map_of (tools self2) n = Some (Tool_init n (doc_or_empty (fn_doc g)) g) \<and>
           register_tool g self = Inr self2"
  by (simp add: register_tool_named [OF assms(1)] register_tool_named [OF assms(2)]
      update_last update_conv')

theorem register_same_name_overwrites_witness:
  "fn_name get_weather_fn = Some (ustr ''get_weather'') \<and>
   fn_name (get_weather_fn\<lparr>fn_doc := None\<rparr>) = Some (ustr ''get_weather'') \<and>
   (\<exists>self1 self2.
      register_tool get_weather_fn Agent_init = Inr self1 \<and>
      register_tool (get_weather_fn\<lparr>fn_doc := None\<rparr>) self1 = Inr self2 \<and>
      map_of (tools self2) (ustr ''get_weather'') =
        Some (Tool_init (ustr ''get_weather'') [] (get_weather_fn\<lparr>fn_doc := None\<rparr>)) \<and>
      register_tool (get_weather_fn\<lparr>fn_doc := None\<rparr>) Agent_init = Inr self2)"
proof -
  have f: "fn_name get_weather_fn = Some (ustr ''get_weather'')"
    by (simp add: get_weather_fn_def)
  have g: "fn_name (get_weather_fn\<lparr>fn_doc := None\<rparr>) = Some (ustr ''get_weather'')"
    by (simp add: get_weather_fn_def)
  have "doc_or_empty (fn_doc (get_weather_fn\<lparr>fn_doc := None\<rparr>)) = []"
    by (simp add: doc_or_empty_def)
  with f g register_same_name_overwrites [OF f g, of "Agent_init :: (pystr, pystr) Agent"] show ?thesis
    by simp
qed

text \<open>
  Claim C9. The registry invariant (distinct keys, each key equal to the name of the tool
  stored under it and to the \<open>__name__\<close> of that tool's handler) holds for the empty
  registry of a new agent and is preserved by every registration that succeeds (one that
  raises leaves the agent as it was); \<open>Agent.run\<close> leaves the agent, and so the registry,
  unchanged.
\<close>

theorem registry_invariant:
  "registry_inv Agent_init \<and>
   (registry_inv self \<longrightarrow> (\<forall>self'. register_tool f self = Inr self' \<longrightarrow> registry_inv self')) \<and>
   agent_after (Agent_run self user_input) = self"
  by (auto simp: Agent_run_agent_after intro: register_tool_inv)
    (simp add: registry_inv_def Agent_init_def)

theorem registry_invariant_witness:
  "registry_inv (Agent_init :: (pystr, pystr) Agent) \<and>
   register_tool get_weather_fn Agent_init =
     Inr \<lparr>tools = [(ustr ''get_weather'',
       Tool_init (ustr ''get_weather'') (ustr ''Fetches the weather for a given location.'')
         get_weather_fn)]\<rparr> \<and>
   registry_inv \<lparr>tools = [(ustr ''get_weather'',
       Tool_init (ustr ''get_weather'') (ustr ''Fetches the weather for a given location.'')
         get_weather_fn)]\<rparr> \<and>
   agent_after (Agent_run \<lparr>tools = [(ustr ''get_weather'',
       Tool_init (ustr ''get_weather'') (ustr ''Fetches the weather for a given location.'')
         get_weather_fn)]\<rparr> (ustr ''How is it in Berlin?'')) =
     \<lparr>tools = [(ustr ''get_weather'',
       Tool_init (ustr ''get_weather'') (ustr ''Fetches the weather for a given location.'')
         get_weather_fn)]\<rparr>"
proof -
  have reg: "register_tool get_weather_fn Agent_init =
     Inr \<lparr>tools = [(ustr ''get_weather'',
       Tool_init (ustr ''get_weather'') (ustr ''Fetches the weather for a given location.'')
         get_weather_fn)]\<rparr>"
    by (simp add: register_tool_def get_weather_fn_def Agent_init_def Tool_init_def
        doc_or_empty_def ustr_def)
  from registry_invariant [of Agent_init get_weather_fn] reg
    registry_invariant [of "\<lparr>tools = [(ustr ''get_weather'',
       Tool_init (ustr ''get_weather'') (ustr ''Fetches the weather for a given location.'')
         get_weather_fn)]\<rparr>" get_weather_fn "ustr ''How is it in Berlin?''"]
  show ?thesis by blast
qed

section \<open>The location heuristic\<close>

text \<open>
  Claim C1 as stated fails. In \<open>a in in Tokyo\<close> the last occurrence of \<open>" in "\<close> is
  followed by \<open>Tokyo\<close>, but \<open>split\<close> scans from the left without overlap: it cuts at
  the first occurrence, which uses up the space the second one starts with, and the
  extracted location is \<open>in Tokyo\<close>. In \<open>" in Tokyo"\<close> the leading space is stripped
  before the split, no separator is left, and the location is again \<open>in Tokyo\<close>.
\<close>

theorem extract_location_overlap_counterexample:
  "ustr ''a in in Tokyo'' = ustr ''a in'' @ sep_in @ ustr ''Tokyo'' \<and>
   \<not> sublist sep_in (tl (sep_in @ ustr ''Tokyo'')) \<and>
   py_strip_chars (ustr '' ?.'') (py_strip (ustr ''Tokyo'')) = ustr ''Tokyo'' \<and>
   extract_location (ustr ''a in in Tokyo'') = Inr (ustr ''in Tokyo'') \<and>
   extract_location (ustr ''a in in Tokyo'') \<noteq> Inr (ustr ''Tokyo'') \<and>
   ustr '' in Tokyo'' = [] @ sep_in @ ustr ''Tokyo'' \<and>
   extract_location (ustr '' in Tokyo'') = Inr (ustr ''in Tokyo'') \<and>
   extract_location (ustr '' in Tokyo'') \<noteq> Inr (ustr ''Tokyo'')"
  by (simp add: extract_location_def py_split.simps sep_in_def ustr_def py_strip_def
      strip_where_def py_isspace_def py_last_def py_strip_chars_def sublist_code)

text \<open>
  Claim C1, amended. Let the input with surrounding whitespace stripped be
  \<open>pre + " in " + seg\<close>, where \<open>seg\<close> does not contain \<open>" in "\<close> and \<open>pre\<close> does not
  end with \<open>" in"\<close>. Then the extracted location is \<open>seg\<close> with leading and trailing
  space, \<open>?\<close> and \<open>.\<close> characters stripped. For the notebook's own input, with trailing
  whitespace added, it is \<open>New York\<close>.
\<close>

theorem extract_location_after_in:
  assumes "py_strip user_input = pre @ sep_in @ seg"
    and "\<not> suffix (ustr '' in'') pre"
    and "\<not> sublist sep_in seg"
  shows "extract_location user_input = Inr (py_strip_chars (ustr '' ?.'') seg)"
  using assms by (rule extract_location_last_in)

theorem extract_location_after_in_witness:
  "py_strip (ustr ''What'' @ [8217] @ ustr ''s the weather in New York? '') =
     (ustr ''What'' @ [8217] @ ustr ''s the weather'') @ sep_in @ ustr ''New York?'' \<and>
   \<not> suffix (ustr '' in'') (ustr ''What'' @ [8217] @ ustr ''s the weather'') \<and>
   \<not> sublist sep_in (ustr ''New York?'') \<and>
   extract_location (ustr ''What'' @ [8217] @ ustr ''s the weather in New York? '') =
     Inr (ustr ''New York'')"
proof -
  have a: "py_strip (ustr ''What'' @ [8217] @ ustr ''s the weather in New York? '') =
     (ustr ''What'' @ [8217] @ ustr ''s the weather'') @ sep_in @ ustr ''New York?''"
    by (simp add: py_strip_def strip_where_def py_isspace_def sep_in_def ustr_def)
  have b: "\<not> suffix (ustr '' in'') (ustr ''What'' @ [8217] @ ustr ''s the weather'')"
    by (simp add: ustr_def suffix_to_prefix)
  have c: "\<not> sublist sep_in (ustr ''New York?'')"
    by (simp add: sep_in_def ustr_def sublist_code)
  have d: "py_strip_chars (ustr '' ?.'') (ustr ''New York?'') = ustr ''New York''"
    by (simp add: py_strip_chars_def strip_where_def ustr_def)
  from extract_location_after_in [OF a b c] a b c d show ?thesis
    by simp
qed

section \<open>The agent's run\<close>

text \<open>
  Claim C10. For every input that does not contain the substring \<open>" in "\<close>, the
  extraction does not fail: the extracted location is the whole input with surrounding
  whitespace stripped and then leading and trailing \<open>?\<close>, \<open>.\<close> and space characters
  stripped, and the run goes on to print the action line of the fixed \<open>get_weather\<close>
  action with that location. Spelled out on the input itself: if the input is
  \<open>lead + mid + trail\<close> with \<open>lead\<close> and \<open>trail\<close> whitespace only and \<open>mid\<close> empty or
  beginning and ending with a character that is not whitespace, and \<open>mid\<close> is
  \<open>left + core + right\<close> with \<open>left\<close> and \<open>right\<close> made of space, \<open>?\<close> and \<open>.\<close>
  (code points 32, 63, 46) and \<open>core\<close> empty or beginning and ending with another
  character, then the extracted location is \<open>core\<close>. The instance has a tab, a
  no-break space, an ideographic space and a newline around \<open>? Tokyo?.\<close>
\<close>

theorem run_without_in:
  assumes "\<not> sublist sep_in user_input"
  shows "extract_location user_input =
           Inr (py_strip_chars (ustr '' ?.'') (py_strip user_input)) \<and>
         (\<exists>rest. printed (Agent_run self user_input) =
            Thought_line
            # Action_line (ustr ''get_weather'')
                [(ustr ''location'', py_strip_chars (ustr '' ?.'') (py_strip user_input))]
            # rest) \<and>
         (\<forall>lead mid trail left core right.
            user_input = lead @ mid @ trail \<and>
            (\<forall>c \<in> set lead. py_isspace c) \<and> (\<forall>c \<in> set trail. py_isspace c) \<and>
            (mid = [] \<or> (\<not> py_isspace (hd mid) \<and> \<not> py_isspace (last mid))) \<and>
            mid = left @ core @ right \<and>
            set left \<subseteq> {32, 63, 46} \<and> set right \<subseteq> {32, 63, 46} \<and>
            (core = [] \<or> (hd core \<notin> {32, 63, 46} \<and> last core \<notin> {32, 63, 46})) \<longrightarrow>
            extract_location user_input = Inr core \<and>
            (\<exists>rest. printed (Agent_run self user_input) =
               Thought_line
               # Action_line (ustr ''get_weather'') [(ustr ''location'', core)]
               # rest))"
proof -
  have "sublist (py_strip user_input) user_input"
    by (simp add: py_strip_def sublist_strip_where)
  with assms have "\<not> sublist sep_in (py_strip user_input)"
    by (meson sublist_order.order_trans)
  then have loc: "extract_location user_input =
      Inr (py_strip_chars (ustr '' ?.'') (py_strip user_input))"
    by (rule extract_location_no_in)
  have chars: "set (ustr '' ?.'') = {32, 63, 46}"
    by (simp add: ustr_def)
  have core: "py_strip_chars (ustr '' ?.'') (py_strip user_input) = core"
    if "user_input = lead @ mid @ trail"
      and "\<forall>c \<in> set lead. py_isspace c" "\<forall>c \<in> set trail. py_isspace c"
      and "mid = [] \<or> (\<not> py_isspace (hd mid) \<and> \<not> py_isspace (last mid))"
      and "mid = left @ core @ right"
      and "set left \<subseteq> {32, 63, 46}" "set right \<subseteq> {32, 63, 46}"
      and "core = [] \<or> (hd core \<notin> {32, 63, 46} \<and> last core \<notin> {32, 63, 46})"
    for lead mid trail left core right
  proof -
    from that(1-4) have "py_strip user_input = mid"
      unfolding py_strip_def by (simp only: strip_where_both)
    moreover from that(6-8) have "strip_where (\<lambda>c. c \<in> set (ustr '' ?.'')) (left @ core @ right) = core"
      unfolding chars by (intro strip_where_both) auto
    ultimately show ?thesis
      by (simp add: py_strip_chars_def that(5))
  qed
  show ?thesis
  proof (intro conjI allI impI)
    show "extract_location user_input =
        Inr (py_strip_chars (ustr '' ?.'') (py_strip user_input))"
      by (rule loc)
    show "\<exists>rest. printed (Agent_run self user_input) =
            Thought_line
            # Action_line (ustr ''get_weather'')
                [(ustr ''location'', py_strip_chars (ustr '' ?.'') (py_strip user_input))]
            # rest"
      by (rule Agent_run_shown [OF loc])
  next
    fix lead mid trail left core right
    assume parts: "user_input = lead @ mid @ trail \<and>
            (\<forall>c \<in> set lead. py_isspace c) \<and> (\<forall>c \<in> set trail. py_isspace c) \<and>
            (mid = [] \<or> (\<not> py_isspace (hd mid) \<and> \<not> py_isspace (last mid))) \<and>
            mid = left @ core @ right \<and>
            set left \<subseteq> {32, 63, 46} \<and> set right \<subseteq> {32, 63, 46} \<and>
            (core = [] \<or> (hd core \<notin> {32, 63, 46} \<and> last core \<notin> {32, 63, 46}))"
    then have "py_strip_chars (ustr '' ?.'') (py_strip user_input) = core"
      by (intro core [of lead mid trail left core right]) blast+
    with loc have loc': "extract_location user_input = Inr core"
      by simp
    then show "extract_location user_input = Inr core" .
    from Agent_run_shown [OF loc']
    show "\<exists>rest. printed (Agent_run self user_input) =
               Thought_line
               # Action_line (ustr ''get_weather'') [(ustr ''location'', core)]
               # rest" .
  qed
qed

theorem run_without_in_witness:
  "\<not> sublist sep_in ([9, 160] @ ustr ''? Tokyo?.'' @ [12288, 10]) \<and>
   [9, 160] @ ustr ''? Tokyo?.'' @ [12288, 10] = [9, 160] @ ustr ''? Tokyo?.'' @ [12288, 10] \<and>
   py_isspace 9 \<and> py_isspace 160 \<and> py_isspace 12288 \<and> py_isspace 10 \<and>
   \<not> py_isspace (hd (ustr ''? Tokyo?.'')) \<and> \<not> py_isspace (last (ustr ''? Tokyo?.'')) \<and>
   ustr ''? Tokyo?.'' = ustr ''? '' @ ustr ''Tokyo'' @ ustr ''?.'' \<and>
   set (ustr ''? '') \<subseteq> {32, 63, 46} \<and> set (ustr ''?.'') \<subseteq> {32, 63, 46} \<and>
   hd (ustr ''Tokyo'') \<notin> {32, 63, 46} \<and> last (ustr ''Tokyo'') \<notin> {32, 63, 46} \<and>
   extract_location ([9, 160] @ ustr ''? Tokyo?.'' @ [12288, 10]) = Inr (ustr ''Tokyo'') \<and>
   (\<exists>rest. printed (Agent_run (Agent_init :: (pystr, pystr) Agent)
              ([9, 160] @ ustr ''? Tokyo?.'' @ [12288, 10])) =
      Thought_line # Action_line (ustr ''get_weather'') [(ustr ''location'', ustr ''Tokyo'')] # rest)"
proof -
  have no: "\<not> sublist sep_in ([9, 160] @ ustr ''? Tokyo?.'' @ [12288, 10])"
    by (simp add: sep_in_def ustr_def sublist_code)
  have ws: "py_isspace 9 \<and> py_isspace 160 \<and> py_isspace 12288 \<and> py_isspace 10 \<and>
      \<not> py_isspace (hd (ustr ''? Tokyo?.'')) \<and> \<not> py_isspace (last (ustr ''? Tokyo?.''))"
    by (simp add: py_isspace_def ustr_def)
  have cut: "ustr ''? Tokyo?.'' = ustr ''? '' @ ustr ''Tokyo'' @ ustr ''?.'' \<and>
      set (ustr ''? '') \<subseteq> {32, 63, 46} \<and> set (ustr ''?.'') \<subseteq> {32, 63, 46} \<and>
      hd (ustr ''Tokyo'') \<notin> {32, 63, 46} \<and> last (ustr ''Tokyo'') \<notin> {32, 63, 46}"
    by (simp add: ustr_def)
  from ws have around: "(\<forall>c \<in> set [9, 160]. py_isspace c) \<and>
      (\<forall>c \<in> set [12288, 10]. py_isspace c)"
    by simp
  from run_without_in [OF no, of "Agent_init :: (pystr, pystr) Agent"]
  have "\<forall>lead mid trail left core right.
            [9, 160] @ ustr ''? Tokyo?.'' @ [12288, 10] = lead @ mid @ trail \<and>
            (\<forall>c \<in> set lead. py_isspace c) \<and> (\<forall>c \<in> set trail. py_isspace c) \<and>
            (mid = [] \<or> (\<not> py_isspace (hd mid) \<and> \<not> py_isspace (last mid))) \<and>
            mid = left @ core @ right \<and>
            set left \<subseteq> {32, 63, 46} \<and> set right \<subseteq> {32, 63, 46} \<and>
            (core = [] \<or> (hd core \<notin> {32, 63, 46} \<and> last core \<notin> {32, 63, 46})) \<longrightarrow>
            extract_location ([9, 160] @ ustr ''? Tokyo?.'' @ [12288, 10]) = Inr core \<and>
            (\<exists>rest. printed (Agent_run (Agent_init :: (pystr, pystr) Agent)
                       ([9, 160] @ ustr ''? Tokyo?.'' @ [12288, 10])) =
               Thought_line
               # Action_line (ustr ''get_weather'') [(ustr ''location'', core)]
               # rest)"
    by (rule conjunct2 [OF conjunct2])
  from this [rule_format, of "[9, 160]" "ustr ''? Tokyo?.''" "[12288, 10]"
      "ustr ''? ''" "ustr ''Tokyo''" "ustr ''?.''"] ws around cut
  have "extract_location ([9, 160] @ ustr ''? Tokyo?.'' @ [12288, 10]) = Inr (ustr ''Tokyo'') \<and>
      (\<exists>rest. printed (Agent_run (Agent_init :: (pystr, pystr) Agent)
                 ([9, 160] @ ustr ''? Tokyo?.'' @ [12288, 10])) =
         Thought_line # Action_line (ustr ''get_weather'') [(ustr ''location'', ustr ''Tokyo'')] # rest)"
    by blast
  with no ws cut show ?thesis
    by blast
qed

text \<open>
  Claim C8. For every agent and every input, the extraction succeeds and the action that
  \<open>Agent.run\<close> builds and prints names the tool \<open>get_weather\<close> and has as its input
  exactly the pair of \<open>location\<close> and the extracted location, whatever the input says
  and whatever tools are registered.
\<close>

theorem run_action_fixed:
  "\<exists>location rest.
     extract_location user_input = Inr location \<and>
     printed (Agent_run self user_input) =
       Thought_line # Action_line (ustr ''get_weather'') [(ustr ''location'', location)] # rest"
proof -
  obtain location where loc: "extract_location user_input = Inr location"
    using extract_location_total by blast
  with Agent_run_shown [OF loc, of self] show ?thesis
    by blast
qed

text \<open>
  Claim C4. If no tool is registered under \<open>get_weather\<close>, every call of \<open>Agent.run\<close>
  prints the thought line, the action line and the not-found notice, nothing else, and
  returns without raising. This is the only failure that is handled: when the tool is
  registered and its call raises, the exception leaves \<open>Agent.run\<close> after the action
  line; and the not-found notice is printed exactly when the lookup finds nothing.
\<close>

theorem run_tool_not_found:
  "(map_of (tools self) (ustr ''get_weather'') = None \<longrightarrow>
      (\<exists>location.
         extract_location user_input = Inr location \<and>
         Agent_run self user_input =
           \<lparr>agent_after = self,
            printed = [Thought_line,
                       Action_line (ustr ''get_weather'') [(ustr ''location'', location)],
                       Not_found_line],
            raised = None\<rparr>)) \<and>
   (map_of (tools self) (ustr ''get_weather'') = Some tool \<and>
    extract_location user_input = Inr location \<and>
    Tool_run tool [(ustr ''location'', location)] = Inl e \<longrightarrow>
      Agent_run self user_input =
        \<lparr>agent_after = self,
         printed = [Thought_line,
                    Action_line (ustr ''get_weather'') [(ustr ''location'', location)]],
         raised = Some e\<rparr>) \<and>
   (Not_found_line \<in> set (printed (Agent_run self user_input)) \<longleftrightarrow>
      map_of (tools self) (ustr ''get_weather'') = None)"
proof -
  obtain loc where loc: "extract_location user_input = Inr loc"
    using extract_location_total by blast
  show ?thesis
    by (simp add: loc Agent_run_def Let_def split: option.splits sum.splits)
qed

theorem run_tool_not_found_witness:
  "map_of (tools (Agent_init :: (pystr, pystr) Agent)) (ustr ''get_weather'') = None \<and>
   Agent_run (Agent_init :: (pystr, pystr) Agent) (ustr ''What is the weather in New York?'') =
     \<lparr>agent_after = Agent_init,
      printed = [Thought_line,
                 Action_line (ustr ''get_weather'') [(ustr ''location'', ustr ''New York'')],
                 Not_found_line],
      raised = None\<rparr> \<and>
   raised (Agent_run
     \<lparr>tools = [(ustr ''get_weather'',
        Tool_init (ustr ''get_weather'') []
          \<lparr>fn_name = Some (ustr ''get_weather''), fn_doc = None,
           fn_call = (\<lambda>kwargs :: pystr kwargs.
                        (Inl (Exception (ustr ''offline'')) :: pyexn + pystr))\<rparr>)]\<rparr>
     (ustr ''What is the weather in New York?'')) = Some (Exception (ustr ''offline''))"
proof -
  have none: "map_of (tools (Agent_init :: (pystr, pystr) Agent)) (ustr ''get_weather'') = None"
    by (simp add: Agent_init_def)
  have loc: "extract_location (ustr ''What is the weather in New York?'') = Inr (ustr ''New York'')"
    by (simp add: extract_location_def py_split.simps sep_in_def ustr_def py_strip_def
        strip_where_def py_isspace_def py_last_def py_strip_chars_def)
  have some: "map_of (tools
     \<lparr>tools = [(ustr ''get_weather'',
        Tool_init (ustr ''get_weather'') []
          \<lparr>fn_name = Some (ustr ''get_weather''), fn_doc = None,
           fn_call = (\<lambda>kwargs :: pystr kwargs.
                        (Inl (Exception (ustr ''offline'')) :: pyexn + pystr))\<rparr>)]\<rparr>)
     (ustr ''get_weather'') =
     Some (Tool_init (ustr ''get_weather'') []
          \<lparr>fn_name = Some (ustr ''get_weather''), fn_doc = None,
           fn_call = (\<lambda>kwargs :: pystr kwargs.
                        (Inl (Exception (ustr ''offline'')) :: pyexn + pystr))\<rparr>)"
    by simp
  have raises: "Tool_run (Tool_init (ustr ''get_weather'') []
          \<lparr>fn_name = Some (ustr ''get_weather''), fn_doc = None,
           fn_call = (\<lambda>kwargs :: pystr kwargs.
                        (Inl (Exception (ustr ''offline'')) :: pyexn + pystr))\<rparr>)
       [(ustr ''location'', ustr ''New York'')] = Inl (Exception (ustr ''offline''))"
    by (simp add: Tool_run_forwards ustr_def)
  from none loc
    run_tool_not_found [of "Agent_init :: (pystr, pystr) Agent"
      "ustr ''What is the weather in New York?''"]
  have first: "Agent_run (Agent_init :: (pystr, pystr) Agent)
      (ustr ''What is the weather in New York?'') =
     \<lparr>agent_after = Agent_init,
      printed = [Thought_line,
                 Action_line (ustr ''get_weather'') [(ustr ''location'', ustr ''New York'')],
                 Not_found_line],
      raised = None\<rparr>"
    by auto
  from run_tool_not_found [of _ _ _ "ustr ''New York''" "Exception (ustr ''offline'')"] some loc raises
  have "raised (Agent_run
     \<lparr>tools = [(ustr ''get_weather'',
        Tool_init (ustr ''get_weather'') []
          \<lparr>fn_name = Some (ustr ''get_weather''), fn_doc = None,
           fn_call = (\<lambda>kwargs :: pystr kwargs.
                        (Inl (Exception (ustr ''offline'')) :: pyexn + pystr))\<rparr>)]\<rparr>
     (ustr ''What is the weather in New York?'')) = Some (Exception (ustr ''offline''))"
    by (metis outcome.select_convs(3))
  with none first show ?thesis
    by simp
qed

text \<open>
  Claim C5 as stated fails. With \<open>get_weather\<close> registered, the input
  \<open>weather in Tokyo today\<close> contains \<open>" in Tokyo"\<close>, but the extracted location is
  \<open>Tokyo today\<close>, which is not in the table: the final response carries the fallback
  string and does not contain the Tokyo description.
\<close>

theorem run_in_tokyo_counterexample:
  "register_tool get_weather_fn Agent_init =
     Inr \<lparr>tools = [(ustr ''get_weather'',
       Tool_init (ustr ''get_weather'') (ustr ''Fetches the weather for a given location.'')
         get_weather_fn)]\<rparr> \<and>
   sublist (ustr '' in Tokyo'') (ustr ''weather in Tokyo today'') \<and>
   Agent_run \<lparr>tools = [(ustr ''get_weather'',
       Tool_init (ustr ''get_weather'') (ustr ''Fetches the weather for a given location.'')
         get_weather_fn)]\<rparr> (ustr ''weather in Tokyo today'') =
     \<lparr>agent_after = \<lparr>tools = [(ustr ''get_weather'',
         Tool_init (ustr ''get_weather'') (ustr ''Fetches the weather for a given location.'')
           get_weather_fn)]\<rparr>,
      printed = [Thought_line,
                 Action_line (ustr ''get_weather'') [(ustr ''location'', ustr ''Tokyo today'')],
                 Observation_line (ustr ''Weather data not available.''),
                 Updated_thought_line,
                 Final_response_line (ustr ''Tokyo today'') (ustr ''Weather data not available.'')],
      raised = None\<rparr> \<and>
   \<not> sublist (ustr ''Sunny, 28'' @ [176] @ ustr ''C, 40% humidity'')
       (final_response_text (ustr ''Tokyo today'') (ustr ''Weather data not available.''))"
proof -
  have reg: "register_tool get_weather_fn Agent_init =
     Inr \<lparr>tools = [(ustr ''get_weather'',
       Tool_init (ustr ''get_weather'') (ustr ''Fetches the weather for a given location.'')
         get_weather_fn)]\<rparr>"
    by (simp add: register_tool_def get_weather_fn_def Agent_init_def Tool_init_def
        doc_or_empty_def ustr_def)
  have sub: "sublist (ustr '' in Tokyo'') (ustr ''weather in Tokyo today'')"
    by (simp add: ustr_def sublist_code)
  have loc: "extract_location (ustr ''weather in Tokyo today'') = Inr (ustr ''Tokyo today'')"
    by (simp add: extract_location_def py_split.simps sep_in_def ustr_def py_strip_def
        strip_where_def py_isspace_def py_last_def py_strip_chars_def)
  have gw: "get_weather (ustr ''Tokyo today'') = ustr ''Weather data not available.''"
    by (simp add: get_weather_def simulated_weather_def weather_not_available_def ustr_def)
  have no: "\<not> sublist (ustr ''Sunny, 28'' @ [176] @ ustr ''C, 40% humidity'')
       (final_response_text (ustr ''Tokyo today'') (ustr ''Weather data not available.''))"
    by (simp add: final_response_text_def ustr_def sublist_code)
  have "map_of (tools \<lparr>tools = [(ustr ''get_weather'',
       Tool_init (ustr ''get_weather'') (ustr ''Fetches the weather for a given location.'')
         get_weather_fn)]\<rparr>) (ustr ''get_weather'') =
      Some (Tool_init (ustr ''get_weather'') (ustr ''Fetches the weather for a given location.'')
         get_weather_fn)"
    by simp
  from run_registered_get_weather [OF this loc] reg sub gw no show ?thesis
    by simp
qed

text \<open>
  Claim C5, amended. After \<open>get_weather\<close> has been registered, let the input with
  surrounding whitespace stripped be \<open>pre + " in Tokyo" + trail\<close>, where \<open>trail\<close> consists
  only of space, \<open>?\<close> and \<open>.\<close> characters and \<open>pre\<close> does not end with \<open>" in"\<close>. Then the
  run prints all five lines, the last being the final response for \<open>Tokyo\<close>, whose text
  contains the Tokyo description, and returns without raising.
\<close>

theorem run_in_tokyo:
  assumes "register_tool get_weather_fn before = Inr self"
    and "py_strip user_input = pre @ ustr '' in Tokyo'' @ trail"
    and "set trail \<subseteq> set (ustr '' ?.'')"
    and "\<not> suffix (ustr '' in'') pre"
  shows "Agent_run self user_input =
           \<lparr>agent_after = self,
            printed = [Thought_line,
                       Action_line (ustr ''get_weather'') [(ustr ''location'', ustr ''Tokyo'')],
                       Observation_line (ustr ''Sunny, 28'' @ [176] @ ustr ''C, 40% humidity''),
                       Updated_thought_line,
                       Final_response_line (ustr ''Tokyo'')
                         (ustr ''Sunny, 28'' @ [176] @ ustr ''C, 40% humidity'')],
            raised = None\<rparr> \<and>
         sublist (ustr ''Sunny, 28'' @ [176] @ ustr ''C, 40% humidity'')
           (final_response_text (ustr ''Tokyo'')
              (ustr ''Sunny, 28'' @ [176] @ ustr ''C, 40% humidity''))"
proof -
  have split: "ustr '' in Tokyo'' = sep_in @ ustr ''Tokyo''"
    by (simp add: sep_in_def ustr_def)
  have "105 \<in> set sep_in"
    by (simp add: sep_in_def ustr_def)
  moreover from assms(3) have "105 \<notin> set (ustr ''Tokyo'' @ trail)"
    by (auto simp: ustr_def)
  ultimately have nosep: "\<not> sublist sep_in (ustr ''Tokyo'' @ trail)"
    using set_mono_sublist by blast
  from assms(2) have "py_strip user_input = pre @ sep_in @ (ustr ''Tokyo'' @ trail)"
    by (simp add: split)
  from extract_location_last_in [OF this assms(4) nosep]
  have "extract_location user_input =
      Inr (py_strip_chars (ustr '' ?.'') (ustr ''Tokyo'' @ trail))" .
  moreover have "py_strip_chars (ustr '' ?.'') (ustr ''Tokyo'' @ trail) = ustr ''Tokyo''"
    unfolding py_strip_chars_def
    using assms(3) by (intro strip_where_core) (auto simp: ustr_def)
  ultimately have loc: "extract_location user_input = Inr (ustr ''Tokyo'')"
    by simp
  have gw: "get_weather (ustr ''Tokyo'') = ustr ''Sunny, 28'' @ [176] @ ustr ''C, 40% humidity''"
    by (simp add: get_weather_def simulated_weather_def weather_tokyo_def ustr_def)
  from run_registered_get_weather [OF register_get_weather_lookup [OF assms(1)] loc]
  show ?thesis
    by (simp add: gw final_response_contains_result)
qed

theorem run_in_tokyo_witness:
  "register_tool get_weather_fn Agent_init =
     Inr \<lparr>tools = [(ustr ''get_weather'',
       Tool_init (ustr ''get_weather'') (ustr ''Fetches the weather for a given location.'')
         get_weather_fn)]\<rparr> \<and>
   py_strip (ustr ''Is it hot in Tokyo?'') = ustr ''Is it hot'' @ ustr '' in Tokyo'' @ ustr ''?'' \<and>
   set (ustr ''?'') \<subseteq> set (ustr '' ?.'') \<and>
   \<not> suffix (ustr '' in'') (ustr ''Is it hot'') \<and>
   printed (Agent_run \<lparr>tools = [(ustr ''get_weather'',
       Tool_init (ustr ''get_weather'') (ustr ''Fetches the weather for a given location.'')
         get_weather_fn)]\<rparr> (ustr ''Is it hot in Tokyo?'')) =
     [Thought_line,
      Action_line (ustr ''get_weather'') [(ustr ''location'', ustr ''Tokyo'')],
      Observation_line (ustr ''Sunny, 28'' @ [176] @ ustr ''C, 40% humidity''),
      Updated_thought_line,
      Final_response_line (ustr ''Tokyo'') (ustr ''Sunny, 28'' @ [176] @ ustr ''C, 40% humidity'')]"
proof -
  have reg: "register_tool get_weather_fn Agent_init =
     Inr \<lparr>tools = [(ustr ''get_weather'',
       Tool_init (ustr ''get_weather'') (ustr ''Fetches the weather for a given location.'')
         get_weather_fn)]\<rparr>"
    by (simp add: register_tool_def get_weather_fn_def Agent_init_def Tool_init_def
        doc_or_empty_def ustr_def)
  have a: "py_strip (ustr ''Is it hot in Tokyo?'') =
      ustr ''Is it hot'' @ ustr '' in Tokyo'' @ ustr ''?''"
    by (simp add: py_strip_def strip_where_def py_isspace_def ustr_def)
  have b: "set (ustr ''?'') \<subseteq> set (ustr '' ?.'')"
    by (simp add: ustr_def)
  have c: "\<not> suffix (ustr '' in'') (ustr ''Is it hot'')"
    by (simp add: ustr_def suffix_to_prefix)
  from run_in_tokyo [OF reg a b c] reg a b c show ?thesis
    by simp
qed

end
